theory Spec2Isabelle
  imports Main "HOL-Library.Word"
begin

section \<open>The LinkedIn job search client (src/linkedin_api.py)\<close>

text \<open>
  A shallow embedding of the class \<open>LinkedInJobAPI\<close>: its constructor, the method
  \<open>search_sap_jobs\<close> and the normalizer \<open>_parse_jobs\<close>. Python is dynamically typed, so
  the values that \<open>response.json()\<close> returns are modelled by one datatype of JSON values,
  exceptions are values of a sum type, and the HTTP transport and the clock are part of an
  explicit world that the search reads and updates.
\<close>

subsection \<open>Python values decoded from JSON\<close>

text \<open>
  \<open>JNull\<close> is \<open>None\<close>, \<open>JBool\<close> a \<open>bool\<close>, \<open>JInt\<close> an (unbounded) \<open>int\<close>, \<open>JFloat\<close> a
  \<open>float\<close> given by its 64 IEEE bits, \<open>JStr\<close> a \<open>str\<close>, \<open>JArr\<close> a \<open>list\<close> and \<open>JObj\<close> a
  \<open>dict\<close> with \<open>str\<close> keys, written as its items in insertion order (a dict holds each
  key once; \<open>map_of\<close> is the lookup).
\<close>

datatype json =
    JNull
  | JBool bool
  | JInt int
  | JFloat "64 word"
  | JStr string
  | JArr "json list"
  | JObj "(string \<times> json) list"

text \<open>
  Python's truth value of an object, as \<open>if x:\<close> tests it: \<open>None\<close>, \<open>False\<close>, \<open>0\<close>,
  \<open>0.0\<close> and \<open>-0.0\<close>, and the empty string, list and dict are false.
\<close>

fun truthy :: "json \<Rightarrow> bool" where
  "truthy JNull = False"
| "truthy (JBool b) = b"
| "truthy (JInt n) = (n \<noteq> 0)"
| "truthy (JFloat w) = (w \<noteq> 0 \<and> w \<noteq> 0x8000000000000000)"
| "truthy (JStr s) = (s \<noteq> [])"
| "truthy (JArr xs) = (xs \<noteq> [])"
| "truthy (JObj kvs) = (kvs \<noteq> [])"

text \<open>\<open>type(x).__name__\<close>, as error messages print it.\<close>

fun type_name :: "json \<Rightarrow> string" where
  "type_name JNull = ''NoneType''"
| "type_name (JBool b) = ''bool''"
| "type_name (JInt n) = ''int''"
| "type_name (JFloat w) = ''float''"
| "type_name (JStr s) = ''str''"
| "type_name (JArr xs) = ''list''"
| "type_name (JObj kvs) = ''dict''"

subsection \<open>Exceptions\<close>

text \<open>
  The classes of exception the code can meet. \<open>Timeout\<close> is \<open>requests.exceptions.Timeout\<close>
  and its subclasses, \<open>RequestException\<close> every other subclass of
  \<open>requests.exceptions.RequestException\<close>, \<open>OtherException\<close> any other subclass of
  \<open>Exception\<close> that the environment raises. All of them derive from \<open>Exception\<close>; signals
  outside \<open>Exception\<close> (\<open>KeyboardInterrupt\<close>, \<open>SystemExit\<close>) are not outcomes of the calls
  modelled here.
\<close>

datatype exn_class =
    Timeout | RequestException | TypeError | AttributeError | OverflowError | OtherException

text \<open>An exception in flight: its class and \<open>str(e)\<close>.\<close>

datatype exn = Exn exn_class string

fun exn_cls :: "exn \<Rightarrow> exn_class" where
  "exn_cls (Exn c m) = c"

fun exn_str :: "exn \<Rightarrow> string" where
  "exn_str (Exn c m) = m"

subsection \<open>Helpers of the Python runtime\<close>

text \<open>\<open>str(n)\<close> for an integer, used by f-strings.\<close>

fun str_nat :: "nat \<Rightarrow> string" where
  "str_nat n =
     (if n < 10 then [''0123456789'' ! n]
      else str_nat (n div 10) @ [''0123456789'' ! (n mod 10)])"

declare str_nat.simps [simp del]

definition str_int :: "int \<Rightarrow> string" where
  "str_int i = (if i < 0 then ''-'' @ str_nat (nat (- i)) else str_nat (nat i))"

text \<open>\<open>sep.join(xs)\<close> on a sequence of strings.\<close>

fun join :: "string \<Rightarrow> string list \<Rightarrow> string" where
  "join sep [] = []"
| "join sep [x] = x"
| "join sep (x # y # ys) = x @ sep @ join sep (y # ys)"

text \<open>
  What iterating over a JSON value yields: the elements of a list, the one-character
  strings of a string, the keys of a dict; \<open>None\<close>, booleans and numbers are not
  iterable (\<open>None\<close> here).
\<close>

fun iter_items :: "json \<Rightarrow> json list option" where
  "iter_items (JArr xs) = Some xs"
| "iter_items (JStr s) = Some (map (\<lambda>c. JStr [c]) s)"
| "iter_items (JObj kvs) = Some (map (\<lambda>kv. JStr (fst kv)) kvs)"
| "iter_items v = None"

text \<open>The strings of a sequence whose items are all \<open>str\<close>; \<open>None\<close> when one is not.\<close>

fun strs_of :: "json list \<Rightarrow> string list option" where
  "strs_of [] = Some []"
| "strs_of (JStr s # vs) = (case strs_of vs of None \<Rightarrow> None | Some ss \<Rightarrow> Some (s # ss))"
| "strs_of (v # vs) = None"

text \<open>
  \<open>", ".join(v)\<close> for an arbitrary value: \<open>TypeError\<close> when \<open>v\<close> is not iterable or
  an item is not a string.
\<close>

definition py_join :: "string \<Rightarrow> json \<Rightarrow> exn_class + json" where
  "py_join sep v =
     (case iter_items v of
        None \<Rightarrow> Inl TypeError
      | Some items \<Rightarrow>
          (case strs_of items of
             None \<Rightarrow> Inl TypeError
           | Some ss \<Rightarrow> Inr (JStr (join sep ss))))"

text \<open>
  \<open>v[:2]\<close>: the first two elements of a list or characters of a string. A dict cannot
  be sliced (\<open>TypeError\<close> up to Python 3.11, \<open>KeyError\<close> from 3.12; both are caught
  alike below), and \<open>None\<close>, booleans and numbers are not subscriptable.
\<close>

fun slice2 :: "json \<Rightarrow> exn_class + json" where
  "slice2 (JArr xs) = Inr (JArr (take 2 xs))"
| "slice2 (JStr s) = Inr (JStr (take 2 s))"
| "slice2 v = Inl TypeError"

text \<open>\<open>job.get(key, default)\<close> on the items of a dict.\<close>

definition dict_get :: "(string \<times> json) list \<Rightarrow> string \<Rightarrow> json \<Rightarrow> json" where
  "dict_get kvs k d = (case map_of kvs k of None \<Rightarrow> d | Some v \<Rightarrow> v)"

subsection \<open>The normalizer \<open>_parse_jobs\<close>\<close>

text \<open>
  The dict built for one job (lines 163-174). Its values are whatever the payload holds
  under the keys read, so every field is a JSON value; \<open>job_type\<close> is the key \<open>"type"\<close>.
\<close>

record parsed_job =
  job_title :: json
  job_company :: json
  job_location :: json
  job_posted_date :: json
  job_description :: json
  job_apply_url :: json
  job_type :: json
  job_remote :: json
  job_salary :: json
  job_industry :: json

text \<open>
  Lines 157-161: the location. \<open>job["locations_derived"]\<close> and \<open>job["location"]\<close> are read
  only after \<open>job.get\<close> found them true, so the keys exist.
\<close>

definition job_location_of :: "(string \<times> json) list \<Rightarrow> exn_class + json" where
  "job_location_of job =
     (if truthy (dict_get job ''locations_derived'' JNull) then
        (case slice2 (dict_get job ''locations_derived'' JNull) of
           Inl e \<Rightarrow> Inl e
         | Inr first2 \<Rightarrow> py_join '', '' first2)
      else if truthy (dict_get job ''location'' JNull) then
        Inr (dict_get job ''location'' JNull)
      else Inr (JStr ''N/A''))"

text \<open>Line 170: the employment type.\<close>

definition job_type_of :: "(string \<times> json) list \<Rightarrow> exn_class + json" where
  "job_type_of job =
     (if truthy (dict_get job ''employment_type'' JNull)
      then py_join '', '' (dict_get job ''employment_type'' (JArr []))
      else Inr (JStr ''N/A''))"

text \<open>
  The body of the \<open>try\<close> of lines 155-175 for one element of the list. Only a dict has
  the method \<open>get\<close>: on any other value the first call raises \<open>AttributeError\<close>.
\<close>

fun parse_job :: "json \<Rightarrow> exn_class + parsed_job" where
  "parse_job (JObj job) =
     (case job_location_of job of
        Inl e \<Rightarrow> Inl e
      | Inr location \<Rightarrow>
          (case job_type_of job of
             Inl e \<Rightarrow> Inl e
           | Inr ty \<Rightarrow>
               Inr \<lparr> job_title = dict_get job ''title'' (JStr ''N/A''),
                     job_company = dict_get job ''organization'' (JStr ''N/A''),
                     job_location = location,
                     job_posted_date =
                       dict_get job ''date_posted'' (dict_get job ''posted_at'' (JStr ''N/A'')),
                     job_description =
                       dict_get job ''description_text''
                         (dict_get job ''description'' (JStr ''No description available'')),
                     job_apply_url = dict_get job ''url'' (dict_get job ''apply_url'' (JStr ''#'')),
                     job_type = ty,
                     job_remote =
                       dict_get job ''remote_derived'' (dict_get job ''remote'' (JBool False)),
                     job_salary = dict_get job ''salary_raw'' (JStr ''Not specified''),
                     job_industry = dict_get job ''linkedin_org_industry'' (JStr ''N/A'') \<rparr>))"
| "parse_job v = Inl AttributeError"

text \<open>
  The loop of lines 154-178 with its accumulator \<open>jobs\<close>: a parsed job is appended, an
  exception of the body is caught and the loop continues.
\<close>

fun parse_loop :: "json list \<Rightarrow> parsed_job list \<Rightarrow> parsed_job list" where
  "parse_loop [] jobs = jobs"
| "parse_loop (job # job_list) jobs =
     (case parse_job job of
        Inr parsed_job \<Rightarrow> parse_loop job_list (jobs @ [parsed_job])
      | Inl e \<Rightarrow> parse_loop job_list jobs)"

text \<open>
  \<open>_parse_jobs\<close> (lines 134-180). The \<open>for\<close> statement itself is outside the \<open>try\<close>: when
  \<open>data["jobs"]\<close> is not iterable it raises \<open>TypeError\<close> out of the function.
\<close>

definition parse_jobs :: "json \<Rightarrow> exn + parsed_job list" where
  "parse_jobs data =
     (case data of
        JArr job_list \<Rightarrow> Inr (parse_loop job_list [])
      | JObj kvs \<Rightarrow>
          (case map_of kvs ''jobs'' of
             None \<Rightarrow> Inr []
           | Some job_list \<Rightarrow>
               (case iter_items job_list of
                  None \<Rightarrow>
                    Inl (Exn TypeError
                          ([CHR 0x27] @ type_name job_list @ [CHR 0x27] @ '' object is not iterable''))
                | Some items \<Rightarrow> Inr (parse_loop items [])))
      | _ \<Rightarrow> Inr [])"

subsection \<open>The client and its world\<close>

record client =
  api_key :: "string option"
  api_host :: "string option"
  base_url :: string

text \<open>\<open>not s\<close> for an optional string: \<open>None\<close> or the empty string.\<close>

fun not_str :: "string option \<Rightarrow> bool" where
  "not_str None = True"
| "not_str (Some s) = (s = [])"

text \<open>
  \<open>__init__\<close> (lines 13-27), from the secrets store as a nested mapping. A missing
  section or key raises inside the \<open>try\<close> and both credentials become \<open>None\<close>; the message
  \<open>st.error\<close> shows is an effect on the page and is left out.
\<close>

definition LinkedInJobAPI :: "(string \<rightharpoonup> (string \<rightharpoonup> string)) \<Rightarrow> client" where
  "LinkedInJobAPI secrets =
     (let creds =
        (case secrets ''rapidapi'' of
           None \<Rightarrow> (None, None)
         | Some rapidapi \<Rightarrow>
             (case rapidapi ''key'' of
                None \<Rightarrow> (None, None)
              | Some k \<Rightarrow>
                  (case rapidapi ''host'' of
                     None \<Rightarrow> (None, None)
                   | Some h \<Rightarrow> (Some k, Some h))))
      in \<lparr> api_key = fst creds,
            api_host = snd creds,
            base_url =
              (if not_str (snd creds)
               then ''https://linkedin-job-search-api.p.rapidapi.com/active-jb-7d''
               else ''https://'' @ the (snd creds) @ ''/active-jb-7d'') \<rparr>)"

text \<open>A value of the \<open>params\<close> dict: a string or an integer.\<close>

datatype param = PStr string | PInt int

record request =
  req_url :: string
  req_headers :: "(string \<times> string) list"
  req_params :: "(string \<times> param) list"
  req_timeout :: nat

text \<open>
  A \<open>requests.Response\<close> as far as the code reads it: \<open>status_code\<close>, \<open>text\<close> and what
  \<open>json()\<close> returns or raises.
\<close>

record response =
  resp_status_code :: int
  resp_text :: string
  resp_json :: "exn + json"

text \<open>
  The world of one call: the date of \<open>datetime.now()\<close> as a proleptic Gregorian ordinal
  (day 1 is 0001-01-01, day 3652059 is 9999-12-31), what \<open>requests.get\<close> does with a
  request (a response or an exception), and the requests sent so far.
\<close>

record world =
  today :: int
  requests_get :: "request \<Rightarrow> exn + response"
  sent :: "request list"

text \<open>
  Line 60. \<open>timedelta(days=days_back)\<close> raises \<open>OverflowError\<close> when \<open>days_back\<close> does not
  fit a C int or exceeds 999999999 in magnitude, and the subtraction raises it when the
  date leaves the years 1 to 9999. The result is the ordinal of the cutoff date; the text
  \<open>strftime\<close> makes of it is never read.
\<close>

definition posted_after :: "int \<Rightarrow> int \<Rightarrow> exn + int" where
  "posted_after now_ordinal days_back =
     (if days_back < - 2147483648 \<or> 2147483647 < days_back then
        Inl (Exn OverflowError ''Python int too large to convert to C int'')
      else if 999999999 < \<bar>days_back\<bar> then
        Inl (Exn OverflowError
              (''days='' @ str_int days_back @ ''; must have magnitude <= 999999999''))
      else if now_ordinal - days_back < 1 \<or> 3652059 < now_ordinal - days_back then
        Inl (Exn OverflowError ''date value out of range'')
      else Inr (now_ordinal - days_back))"

text \<open>Lines 64-76: the query parameters, in the order the dict receives them.\<close>

definition build_params ::
  "string option \<Rightarrow> bool option \<Rightarrow> int \<Rightarrow> int \<Rightarrow> (string \<times> param) list" where
  "build_params location remote limit offset =
     [(''title_filter'', PStr ''SAP''),
      (''limit'', PInt limit),
      (''offset'', PInt offset),
      (''description_type'', PStr ''text'')]
     @ (if \<not> not_str location \<and> location \<noteq> Some ''All Locations''
        then [(''location_filter'', PStr (the location))] else [])
     @ (if remote = Some True then [(''remote'', PStr ''true'')] else [])"

text \<open>Lines 79-91: the headers and the arguments of \<open>requests.get\<close>, read once the
  credentials are known to be there.\<close>

definition build_request ::
  "client \<Rightarrow> string option \<Rightarrow> bool option \<Rightarrow> int \<Rightarrow> int \<Rightarrow> request" where
  "build_request self location remote limit offset =
     \<lparr> req_url = base_url self,
       req_headers = [(''X-RapidAPI-Key'', the (api_key self)),
                      (''X-RapidAPI-Host'', the (api_host self))],
       req_params = build_params location remote limit offset,
       req_timeout = 30 \<rparr>"

text \<open>
  The dict \<open>search_sap_jobs\<close> returns: the keys \<open>success\<close>, \<open>error\<close> and \<open>jobs\<close> are always
  there, \<open>total\<close> only on success (\<open>None\<close> is the missing key), and \<open>error\<close> is \<open>None\<close> on
  success.
\<close>

record result =
  success :: bool
  error :: "string option"
  jobs :: "parsed_job list"
  total :: "nat option"

definition failure :: "string \<Rightarrow> result" where
  "failure msg = \<lparr> success = False, error = Some msg, jobs = [], total = None \<rparr>"

text \<open>The three \<open>except\<close> clauses of lines 115-132, tried in order.\<close>

definition handle_exn :: "exn \<Rightarrow> result" where
  "handle_exn e =
     (if exn_cls e = Timeout then failure ''Request timed out. Please try again.''
      else if exn_cls e = RequestException then failure (''Network error: '' @ exn_str e)
      else failure (''Unexpected error: '' @ exn_str e))"

text \<open>Lines 94-113: the classification of a response that arrived.\<close>

definition classify :: "response \<Rightarrow> exn + result" where
  "classify resp =
     (if resp_status_code resp = 200 then
        (case resp_json resp of
           Inl e \<Rightarrow> Inl e
         | Inr data \<Rightarrow>
             (case parse_jobs data of
                Inl e \<Rightarrow> Inl e
              | Inr js \<Rightarrow>
                  Inr \<lparr> success = True, error = None, jobs = js,
                        total = Some (case data of JArr xs \<Rightarrow> length xs | _ \<Rightarrow> 0) \<rparr>))
      else if resp_status_code resp = 429 then
        Inr (failure ''Rate limit exceeded. Please wait a moment and try again.'')
      else
        Inr (failure (''API error: '' @ str_int (resp_status_code resp) @ '' - '' @ resp_text resp)))"

text \<open>
  \<open>search_sap_jobs\<close> (lines 29-132). The result is what the call returns (\<open>Inr\<close>) or the
  exception it raises (\<open>Inl\<close>), with the world after it. \<open>include_text\<close> is never read.
\<close>

definition search_sap_jobs ::
  "client \<Rightarrow> int \<Rightarrow> string option \<Rightarrow> bool option \<Rightarrow> int \<Rightarrow> int \<Rightarrow> bool \<Rightarrow> world
   \<Rightarrow> (exn + result) \<times> world" where
  "search_sap_jobs self days_back location remote limit offset include_text w =
     (if not_str (api_key self) \<or> not_str (api_host self) then
        (Inr (failure ''API credentials not configured''), w)
      else
        (case posted_after (today w) days_back of
           Inl e \<Rightarrow> (Inl e, w)
         | Inr cutoff \<Rightarrow>
             (let req = build_request self location remote limit offset;
                  w' = w\<lparr> sent := sent w @ [req] \<rparr>
              in (case requests_get w req of
                    Inl e \<Rightarrow> (Inr (handle_exn e), w')
                  | Inr resp \<Rightarrow>
                      (case classify resp of
                         Inl e \<Rightarrow> (Inr (handle_exn e), w')
                       | Inr r \<Rightarrow> (Inr r, w'))))))"

subsection \<open>Predicates and fixtures of the statements\<close>





text \<open>The records of the items of a raw list that parse, in the order of the list.\<close>

abbreviation parsed_of :: "json list \<Rightarrow> parsed_job list" where
  "parsed_of items \<equiv>
     concat (map (\<lambda>job. case parse_job job of Inl e \<Rightarrow> [] | Inr parsed \<Rightarrow> [parsed]) items)"

text \<open>
  Concrete inputs for the instances below: a client built from a complete secrets store,
  the raw job of the specification's example, and a world of 2026-11-04 (ordinal 739924)
  whose transport answers every request with one given outcome.
\<close>

definition demo_client :: client where
  "demo_client =
     LinkedInJobAPI
       [''rapidapi'' \<mapsto> [''key'' \<mapsto> ''secret'', ''host'' \<mapsto> ''jobs.example.com'']]"

definition demo_job :: "(string \<times> json) list" where
  "demo_job =
     [(''title'', JStr ''SAP Consultant''),
      (''organization'', JStr ''Acme''),
      (''locations_derived'', JArr [JStr ''Berlin'', JStr ''Remote'']),
      (''remote_derived'', JBool True)]"

definition replying :: "exn + response \<Rightarrow> world" where
  "replying outcome = \<lparr> today = 739924, requests_get = (\<lambda>req. outcome), sent = [] \<rparr>"

definition ok_response :: "json \<Rightarrow> response" where
  "ok_response data = \<lparr> resp_status_code = 200, resp_text = [], resp_json = Inr data \<rparr>"

section \<open>Properties\<close>

subsection \<open>Auxiliary facts\<close>

lemma demo_client_fields:
  "api_key demo_client = Some ''secret''"
  "api_host demo_client = Some ''jobs.example.com''"
  "base_url demo_client = ''https://jobs.example.com/active-jb-7d''"
  by (simp_all add: demo_client_def LinkedInJobAPI_def)

lemma replying_fields:
  "today (replying outcome) = 739924"
  "requests_get (replying outcome) req = outcome"
  "sent (replying outcome) = []"
  by (simp_all add: replying_def)










text \<open>The loop appends to its accumulator the records of the items that parse.\<close>

lemma parse_loop_parsed_of: "parse_loop items acc = acc @ parsed_of items"
proof (induction items arbitrary: acc)
  case Nil
  show ?case by simp
next
  case (Cons job items)
  show ?case by (cases "parse_job job") (simp_all add: Cons.IH)
qed

lemma parse_jobs_bare_array: "parse_jobs (JArr items) = Inr (parsed_of items)"
  by (simp add: parse_jobs_def parse_loop_parsed_of)

lemma parse_jobs_jobs_array:
  "map_of kvs ''jobs'' = Some (JArr items) \<Longrightarrow> parse_jobs (JObj kvs) = Inr (parsed_of items)"
  by (simp add: parse_jobs_def parse_loop_parsed_of)

text \<open>
  A payload that is neither a list nor a dict with the key \<open>jobs\<close> gives the empty list.
\<close>

lemma parse_jobs_other_shape:
  assumes "\<And>items. data \<noteq> JArr items"
    and "\<And>kvs. data = JObj kvs \<Longrightarrow> map_of kvs ''jobs'' = None"
  shows "parse_jobs data = Inr []"
proof (cases data)
  case (JArr items)
  with assms(1) show ?thesis by blast
next
  case (JObj kvs)
  with assms(2) show ?thesis by (simp add: parse_jobs_def)
qed (simp_all add: parse_jobs_def)

text \<open>A search with credentials and a representable cutoff sends one request.\<close>

lemma search_configured:
  assumes "\<not> not_str (api_key self)" and "\<not> not_str (api_host self)"
    and "posted_after (today w) days_back = Inr c"
  shows "search_sap_jobs self days_back location remote limit offset include_text w =
     (Inr (case requests_get w (build_request self location remote limit offset) of
             Inl e \<Rightarrow> handle_exn e
           | Inr resp \<Rightarrow> (case classify resp of Inl e \<Rightarrow> handle_exn e | Inr r \<Rightarrow> r)),
      w\<lparr> sent := sent w @ [build_request self location remote limit offset] \<rparr>)"
  using assms by (simp add: search_sap_jobs_def Let_def split: sum.splits)

lemma handle_exn_failure:
  "\<not> success (handle_exn e) \<and> (\<exists>msg. error (handle_exn e) = Some msg) \<and> jobs (handle_exn e) = []"
  by (simp add: handle_exn_def failure_def)


lemma classify_tagged:
  assumes "classify resp = Inr r"
  shows "(success r \<and> error r = None) \<or>
         (\<not> success r \<and> (\<exists>msg. error r = Some msg) \<and> jobs r = [])"
  using assms by (auto simp: classify_def failure_def split: if_splits sum.splits)


lemma classify_ok_response:
  "parse_jobs data = Inr js \<Longrightarrow>
   classify (ok_response data) =
     Inr \<lparr> success = True, error = None, jobs = js,
           total = Some (case data of JArr xs \<Rightarrow> length xs | _ \<Rightarrow> 0) \<rparr>"
  by (simp add: classify_def ok_response_def)

text \<open>
  For a bare array, \<open>total\<close> is the length of the raw list, whatever number of its
  items parse.
\<close>

lemma classify_bare_array:
  "classify (ok_response (JArr items)) =
     Inr \<lparr> success = True, error = None, jobs = parsed_of items,
           total = Some (length items) \<rparr>"
  by (simp add: classify_ok_response parse_jobs_bare_array)

subsection \<open>The claims\<close>

text \<open>
  C1. The claim: for every successful search, \<open>total\<close> is the length of the raw list that
  the normalizer processed, whether the payload is a bare array or an object with a
  \<open>jobs\<close> array. The code computes \<open>total\<close> as \<open>len(data) if isinstance(data, list) else 0\<close>:
  for the payload \<open>{"jobs": [{}]}\<close> the search succeeds with one job and \<open>total = 0\<close>,
  where the claim requires 1.
\<close>

theorem total_ignores_jobs_object:
  "fst (search_sap_jobs demo_client 7 None None 25 0 True
          (replying (Inr (ok_response (JObj [(''jobs'', JArr [JObj []])])))))
   = Inr \<lparr> success = True, error = None,
           jobs = [\<lparr> job_title = JStr ''N/A'', job_company = JStr ''N/A'',
                     job_location = JStr ''N/A'', job_posted_date = JStr ''N/A'',
                     job_description = JStr ''No description available'',
                     job_apply_url = JStr ''#'', job_type = JStr ''N/A'',
                     job_remote = JBool False, job_salary = JStr ''Not specified'',
                     job_industry = JStr ''N/A'' \<rparr>],
           total = Some 0 \<rparr>"
proof -
  have "parse_jobs (JObj [(''jobs'', JArr [JObj []])])
        = Inr [\<lparr> job_title = JStr ''N/A'', job_company = JStr ''N/A'',
                  job_location = JStr ''N/A'', job_posted_date = JStr ''N/A'',
                  job_description = JStr ''No description available'',
                  job_apply_url = JStr ''#'', job_type = JStr ''N/A'',
                  job_remote = JBool False, job_salary = JStr ''Not specified'',
                  job_industry = JStr ''N/A'' \<rparr>]"
    by (simp add: parse_jobs_def job_location_of_def job_type_of_def dict_get_def)
  then show ?thesis
    by (simp add: search_configured demo_client_fields replying_fields posted_after_def
        classify_ok_response)
qed







text \<open>
  C4. If the API key or the API host is absent or empty, the search returns the failure
  with the exact message \<open>"API credentials not configured"\<close>, and the world after the call
  is the world before it: no request has been sent.
\<close>

theorem no_credentials:
  assumes "api_key self = None \<or> api_key self = Some []
           \<or> api_host self = None \<or> api_host self = Some []"
  shows "search_sap_jobs self days_back location remote limit offset include_text w =
     (Inr \<lparr> success = False, error = Some ''API credentials not configured'', jobs = [],
            total = None \<rparr>, w)"
proof -
  from assms have "not_str (api_key self) \<or> not_str (api_host self)" by auto
  then show ?thesis by (simp add: search_sap_jobs_def failure_def)
qed

text \<open>C4 at a client built from an empty secrets store: both credentials are absent.\<close>

theorem no_credentials_witness:
  "(api_key (LinkedInJobAPI Map.empty) = None \<or> api_key (LinkedInJobAPI Map.empty) = Some []
    \<or> api_host (LinkedInJobAPI Map.empty) = None \<or> api_host (LinkedInJobAPI Map.empty) = Some [])
   \<and> search_sap_jobs (LinkedInJobAPI Map.empty) 7 None None 25 0 True
         (replying (Inr (ok_response (JArr []))))
       = (Inr \<lparr> success = False, error = Some ''API credentials not configured'', jobs = [],
                total = None \<rparr>, replying (Inr (ok_response (JArr []))))
   \<and> sent (replying (Inr (ok_response (JArr [])))) = []"
proof -
  have h: "api_key (LinkedInJobAPI Map.empty) = None \<or> api_key (LinkedInJobAPI Map.empty) = Some []
    \<or> api_host (LinkedInJobAPI Map.empty) = None \<or> api_host (LinkedInJobAPI Map.empty) = Some []"
    by (simp add: LinkedInJobAPI_def)
  from no_credentials [OF h, of 7 None None 25 0 True "replying (Inr (ok_response (JArr [])))"] h
  show ?thesis by (simp add: replying_fields)
qed

text \<open>
  C5. For every raw job list, an item whose extraction raises is skipped and the batch
  goes on: when \<open>bad\<close> fails to parse, the normalizer applied to \<open>before @ bad # after\<close>
  (as a bare array or under the key \<open>jobs\<close>) returns the records of the items of \<open>before\<close>
  and \<open>after\<close> that parse, in order, and a search that received this payload with status
  200 returns success with exactly these jobs.
\<close>

theorem failing_item_skipped:
  assumes "parse_job bad = Inl e"
    and "\<not> not_str (api_key self)" and "\<not> not_str (api_host self)"
    and "posted_after (today w) days_back = Inr c"
    and "requests_get w (build_request self location remote limit offset) = Inr resp"
    and "resp_status_code resp = 200"
    and "resp_json resp = Inr data"
    and "data = JArr (before @ bad # after)
         \<or> (\<exists>kvs. data = JObj kvs \<and> map_of kvs ''jobs'' = Some (JArr (before @ bad # after)))"
  shows "parse_jobs data = Inr (parsed_of before @ parsed_of after)
     \<and> fst (search_sap_jobs self days_back location remote limit offset include_text w)
       = Inr \<lparr> success = True, error = None,
               jobs = parsed_of before @ parsed_of after,
               total = Some (case data of JArr xs \<Rightarrow> length xs | _ \<Rightarrow> 0) \<rparr>"
proof -
  from assms(1) have skip: "parsed_of (before @ bad # after) = parsed_of before @ parsed_of after"
    by simp
  from assms(8) have "parse_jobs data = Inr (parsed_of (before @ bad # after))"
    using parse_jobs_bare_array parse_jobs_jobs_array by blast
  with skip have parsed: "parse_jobs data = Inr (parsed_of before @ parsed_of after)"
    by simp
  with assms(6,7) have "classify resp
       = Inr \<lparr> success = True, error = None,
               jobs = parsed_of before @ parsed_of after,
               total = Some (case data of JArr xs \<Rightarrow> length xs | _ \<Rightarrow> 0) \<rparr>"
    by (simp add: classify_def)
  with assms(2-5) parsed show ?thesis
    by (simp add: search_configured)
qed

text \<open>
  C5 at a bare array of three items whose second has the number 5 where the list of
  derived locations is expected: the first and the third are returned.
\<close>

theorem failing_item_skipped_witness:
  "parse_job (JObj [(''locations_derived'', JInt 5)]) = Inl TypeError
   \<and> fst (search_sap_jobs demo_client 7 None None 25 0 True
            (replying (Inr (ok_response
               (JArr [JObj demo_job, JObj [(''locations_derived'', JInt 5)], JObj []])))))
     = Inr \<lparr> success = True, error = None,
             jobs = [\<lparr> job_title = JStr ''SAP Consultant'', job_company = JStr ''Acme'',
                       job_location = JStr ''Berlin, Remote'', job_posted_date = JStr ''N/A'',
                       job_description = JStr ''No description available'',
                       job_apply_url = JStr ''#'', job_type = JStr ''N/A'',
                       job_remote = JBool True, job_salary = JStr ''Not specified'',
                       job_industry = JStr ''N/A'' \<rparr>,
                     \<lparr> job_title = JStr ''N/A'', job_company = JStr ''N/A'',
                       job_location = JStr ''N/A'', job_posted_date = JStr ''N/A'',
                       job_description = JStr ''No description available'',
                       job_apply_url = JStr ''#'', job_type = JStr ''N/A'',
                       job_remote = JBool False, job_salary = JStr ''Not specified'',
                       job_industry = JStr ''N/A'' \<rparr>],
             total = Some 3 \<rparr>"
proof -
  let ?bad = "JObj [(''locations_derived'', JInt 5)]"
  let ?data = "JArr ([JObj demo_job] @ ?bad # [JObj []])"
  let ?w = "replying (Inr (ok_response ?data))"
  have h1: "parse_job ?bad = Inl TypeError"
    by (simp add: job_location_of_def dict_get_def)
  have h2: "\<not> not_str (api_key demo_client)" and h3: "\<not> not_str (api_host demo_client)"
    by (simp_all add: demo_client_fields)
  have h4: "posted_after (today ?w) 7 = Inr 739917"
    by (simp add: replying_fields posted_after_def)
  have h5: "requests_get ?w (build_request demo_client None None 25 0) = Inr (ok_response ?data)"
    by (simp add: replying_fields)
  have h6: "resp_status_code (ok_response ?data) = 200"
    and h7: "resp_json (ok_response ?data) = Inr ?data"
    by (simp_all add: ok_response_def)
  have h8: "?data = JArr ([JObj demo_job] @ ?bad # [JObj []])
         \<or> (\<exists>kvs. ?data = JObj kvs
              \<and> map_of kvs ''jobs'' = Some (JArr ([JObj demo_job] @ ?bad # [JObj []])))"
    by simp
  have first: "parsed_of [JObj demo_job]
      = [\<lparr> job_title = JStr ''SAP Consultant'', job_company = JStr ''Acme'',
            job_location = JStr ''Berlin, Remote'', job_posted_date = JStr ''N/A'',
            job_description = JStr ''No description available'',
            job_apply_url = JStr ''#'', job_type = JStr ''N/A'',
            job_remote = JBool True, job_salary = JStr ''Not specified'',
            job_industry = JStr ''N/A'' \<rparr>]"
    by (simp add: demo_job_def job_location_of_def job_type_of_def dict_get_def py_join_def)
  have third: "parsed_of [JObj []]
      = [\<lparr> job_title = JStr ''N/A'', job_company = JStr ''N/A'',
            job_location = JStr ''N/A'', job_posted_date = JStr ''N/A'',
            job_description = JStr ''No description available'',
            job_apply_url = JStr ''#'', job_type = JStr ''N/A'',
            job_remote = JBool False, job_salary = JStr ''Not specified'',
            job_industry = JStr ''N/A'' \<rparr>]"
    by (simp add: job_location_of_def job_type_of_def dict_get_def)
  from failing_item_skipped [OF h1 h2 h3 h4 h5 h6 h7 h8, of True]
  have "fst (search_sap_jobs demo_client 7 None None 25 0 True ?w)
     = Inr \<lparr> success = True, error = None,
             jobs = parsed_of [JObj demo_job] @ parsed_of [JObj []],
             total = Some 3 \<rparr>"
    by simp
  with h1 show ?thesis unfolding first third by simp
qed

text \<open>
  C6. The claim: any top-level shape other than a bare array or an object with a \<open>jobs\<close>
  array gives an empty sequence, not an error. For the object \<open>{"jobs": null}\<close> the
  \<open>for\<close> statement, which is outside the \<open>try\<close>, raises \<open>TypeError\<close> out of the
  normalizer.
\<close>

theorem parse_jobs_null_jobs_raises:
  "parse_jobs (JObj [(''jobs'', JNull)])
   = Inl (Exn TypeError ([CHR 0x27] @ ''NoneType'' @ [CHR 0x27] @ '' object is not iterable''))"
  by (simp add: parse_jobs_def)

text \<open>
  C7. A search that reaches the network sends one request, and its parameters hold the
  key \<open>remote\<close> (with the value \<open>"true"\<close>) if and only if \<open>remote\<close> is exactly \<open>True\<close>;
  for \<open>False\<close> and \<open>None\<close> the key is missing.
\<close>

theorem remote_param:
  assumes "\<not> not_str (api_key self)" and "\<not> not_str (api_host self)"
    and "posted_after (today w) days_back = Inr c"
  shows "\<exists>req. sent (snd (search_sap_jobs self days_back location remote limit offset include_text w))
           = sent w @ [req]
         \<and> map_of (req_params req) ''remote''
           = (if remote = Some True then Some (PStr ''true'') else None)"
  using assms by (simp add: search_configured build_request_def build_params_def)

text \<open>C7 at a search for remote jobs only.\<close>

theorem remote_param_witness:
  "\<not> not_str (api_key demo_client) \<and> \<not> not_str (api_host demo_client)
   \<and> posted_after (today (replying (Inr (ok_response (JArr []))))) 7 = Inr 739917
   \<and> (\<exists>req. sent (snd (search_sap_jobs demo_client 7 None (Some True) 25 0 True
                          (replying (Inr (ok_response (JArr []))))))
             = sent (replying (Inr (ok_response (JArr [])))) @ [req]
           \<and> map_of (req_params req) ''remote'' = Some (PStr ''true''))"
proof -
  let ?w = "replying (Inr (ok_response (JArr [])))"
  have h1: "\<not> not_str (api_key demo_client)" and h2: "\<not> not_str (api_host demo_client)"
    by (simp_all add: demo_client_fields)
  have h3: "posted_after (today ?w) 7 = Inr 739917"
    by (simp add: replying_fields posted_after_def)
  from remote_param [OF h1 h2 h3, of None "Some True" 25 0 True] h1 h2 h3
  show ?thesis by simp
qed

text \<open>
  C8. A search that reaches the network sends one request, and its parameters hold the
  key \<open>location_filter\<close> (with the location as value) if and only if \<open>location\<close> is
  present, not empty and not the sentinel \<open>"All Locations"\<close>.
\<close>

theorem location_param:
  assumes "\<not> not_str (api_key self)" and "\<not> not_str (api_host self)"
    and "posted_after (today w) days_back = Inr c"
  shows "\<exists>req. sent (snd (search_sap_jobs self days_back location remote limit offset include_text w))
           = sent w @ [req]
         \<and> map_of (req_params req) ''location_filter''
           = (if location = None \<or> location = Some [] \<or> location = Some ''All Locations''
              then None else Some (PStr (the location)))"
proof -
  have "not_str location = (location = None \<or> location = Some [])"
    by (cases location) auto
  with assms show ?thesis
    by (simp add: search_configured build_request_def build_params_def)
qed

text \<open>C8 at a search in Mumbai.\<close>

theorem location_param_witness:
  "\<not> not_str (api_key demo_client) \<and> \<not> not_str (api_host demo_client)
   \<and> posted_after (today (replying (Inr (ok_response (JArr []))))) 7 = Inr 739917
   \<and> (\<exists>req. sent (snd (search_sap_jobs demo_client 7 (Some ''Mumbai'') None 25 0 True
                          (replying (Inr (ok_response (JArr []))))))
             = sent (replying (Inr (ok_response (JArr [])))) @ [req]
           \<and> map_of (req_params req) ''location_filter'' = Some (PStr ''Mumbai''))"
proof -
  let ?w = "replying (Inr (ok_response (JArr [])))"
  have h1: "\<not> not_str (api_key demo_client)" and h2: "\<not> not_str (api_host demo_client)"
    by (simp_all add: demo_client_fields)
  have h3: "posted_after (today ?w) 7 = Inr 739917"
    by (simp add: replying_fields posted_after_def)
  from location_param [OF h1 h2 h3, of "Some ''Mumbai''" None 25 0 True] h1 h2 h3
  show ?thesis by simp
qed

text \<open>
  C9. Normalizing the raw input of the specification's example, one job with the title
  \<open>SAP Consultant\<close>, the organization \<open>Acme\<close>, the derived locations \<open>Berlin\<close> and
  \<open>Remote\<close> and \<open>remote_derived\<close> true, yields exactly one record, with the location
  \<open>"Berlin, Remote"\<close>, the company \<open>"Acme"\<close>, \<open>remote\<close> true and the salary
  \<open>"Not specified"\<close>.
\<close>

theorem parse_jobs_example:
  "parse_jobs (JArr [JObj [(''title'', JStr ''SAP Consultant''),
                           (''organization'', JStr ''Acme''),
                           (''locations_derived'', JArr [JStr ''Berlin'', JStr ''Remote'']),
                           (''remote_derived'', JBool True)]])
   = Inr [\<lparr> job_title = JStr ''SAP Consultant'', job_company = JStr ''Acme'',
            job_location = JStr ''Berlin, Remote'', job_posted_date = JStr ''N/A'',
            job_description = JStr ''No description available'', job_apply_url = JStr ''#'',
            job_type = JStr ''N/A'', job_remote = JBool True,
            job_salary = JStr ''Not specified'', job_industry = JStr ''N/A'' \<rparr>]"
  by (simp add: parse_jobs_def job_location_of_def job_type_of_def dict_get_def py_join_def)

text \<open>
  C10. Whenever the search returns a result that is not a success, whatever the reason,
  its list of jobs is empty.
\<close>

theorem search_failure_no_jobs:
  assumes "search_sap_jobs self days_back location remote limit offset include_text w = (Inr r, w')"
    and "\<not> success r"
  shows "jobs r = []"
proof (cases "not_str (api_key self) \<or> not_str (api_host self)")
  case True
  with assms(1) have "r = failure ''API credentials not configured''"
    by (simp add: search_sap_jobs_def)
  then show ?thesis by (simp add: failure_def)
next
  case False
  with assms(1) obtain c where c: "posted_after (today w) days_back = Inr c"
    by (auto simp: search_sap_jobs_def split: sum.splits)
  let ?req = "build_request self location remote limit offset"
  from False c assms(1) have r: "r = (case requests_get w ?req of
             Inl e \<Rightarrow> handle_exn e
           | Inr resp \<Rightarrow> (case classify resp of Inl e \<Rightarrow> handle_exn e | Inr r \<Rightarrow> r))"
    by (simp add: search_configured)
  show ?thesis
  proof (cases "requests_get w ?req")
    case (Inl e)
    with r show ?thesis by (simp add: handle_exn_failure)
  next
    case (Inr resp)
    show ?thesis
    proof (cases "classify resp")
      case (Inl e)
      with r Inr show ?thesis by (simp add: handle_exn_failure)
    next
      case (Inr r')
      with r \<open>requests_get w ?req = Inr resp\<close> have "r = r'" by simp
      with Inr assms(2) show ?thesis using classify_tagged [of resp r'] by simp
    qed
  qed
qed

text \<open>C10 at a search that the API answers with status 429.\<close>

theorem search_failure_no_jobs_witness:
  "search_sap_jobs demo_client 7 None None 25 0 True
     (replying (Inr \<lparr> resp_status_code = 429, resp_text = ''Too Many Requests'',
                      resp_json = Inr JNull \<rparr>))
   = (Inr (failure ''Rate limit exceeded. Please wait a moment and try again.''),
      (replying (Inr \<lparr> resp_status_code = 429, resp_text = ''Too Many Requests'',
                       resp_json = Inr JNull \<rparr>))
        \<lparr> sent := [build_request demo_client None None 25 0] \<rparr>)
   \<and> \<not> success (failure ''Rate limit exceeded. Please wait a moment and try again.'')
   \<and> jobs (failure ''Rate limit exceeded. Please wait a moment and try again.'') = []"
proof -
  let ?w = "replying (Inr \<lparr> resp_status_code = 429, resp_text = ''Too Many Requests'',
                            resp_json = Inr JNull \<rparr>)"
  let ?r = "failure ''Rate limit exceeded. Please wait a moment and try again.''"
  have cutoff: "posted_after (today ?w) 7 = Inr 739917"
    by (simp add: replying_fields posted_after_def)
  have h1: "search_sap_jobs demo_client 7 None None 25 0 True ?w
      = (Inr ?r, ?w\<lparr> sent := [build_request demo_client None None 25 0] \<rparr>)"
    using cutoff
    by (simp add: search_configured demo_client_fields replying_fields classify_def)
  have h2: "\<not> success ?r" by (simp add: failure_def)
  from search_failure_no_jobs [OF h1 h2] h1 h2 show ?thesis by simp
qed

end
